theory Spec2Isabelle
  imports Main "HOL-Library.Word" "HOL-Library.Signed_Division"
begin

unbundle bit_operations_syntax

section \<open>The JACK backend of mididings (backend\_jack.cc)\<close>

subsection \<open>Data model\<close>

text \<open>
  Modelled from the spec: the enumeration \<open>MidiEventType\<close> is declared in midi\_event.hh,
  which is not part of the sources at hand. The source names the six enumerators
  \<open>MIDI_EVENT_NOTEON\<close>, \<open>MIDI_EVENT_NOTEOFF\<close>, \<open>MIDI_EVENT_CTRL\<close>,
  \<open>MIDI_EVENT_PITCHBEND\<close>, \<open>MIDI_EVENT_PROGRAM\<close> and \<open>MIDI_EVENT_NONE\<close>.
  \<open>MIDI_EVENT_OTHER\<close> stands for any further value the enumeration may hold: the
  \<open>default:\<close> branch of \<open>midi_event_to_jack\<close> is what handles it.
\<close>

datatype MidiEventType =
    MIDI_EVENT_NONE
  | MIDI_EVENT_NOTEON
  | MIDI_EVENT_NOTEOFF
  | MIDI_EVENT_CTRL
  | MIDI_EVENT_PITCHBEND
  | MIDI_EVENT_PROGRAM
  | MIDI_EVENT_OTHER

text \<open>
  Modelled from the spec: the struct \<open>MidiEvent\<close> is declared in midi\_event.hh as well.
  The source reads and writes \<open>type\<close>, \<open>port\<close>, \<open>channel\<close>, \<open>note.note\<close>,
  \<open>note.velocity\<close>, \<open>ctrl.param\<close> and \<open>ctrl.value\<close>, all integers. The payload is
  one storage whose shape depends on the type: \<open>note.note\<close> and \<open>ctrl.param\<close> are the
  first payload slot \<open>data1\<close>, \<open>note.velocity\<close> and \<open>ctrl.value\<close> the second payload
  slot \<open>data2\<close>. The fields are C \<open>int\<close>s; they are modelled as mathematical integers, and
  every conversion to a byte is written out where the source performs it. The one
  operation on them that can leave the range of \<open>int\<close> is \<open>ev.ctrl.value + 8192\<close> in the
  encoder, for values within 8192 of \<open>INT_MAX\<close>, where C++ leaves the behaviour undefined.
\<close>

record MidiEvent =
  ev_type :: MidiEventType
  port :: int
  channel :: int
  data1 :: int
  data2 :: int

abbreviation note_note :: "MidiEvent \<Rightarrow> int" where
  "note_note \<equiv> data1"

abbreviation note_velocity :: "MidiEvent \<Rightarrow> int" where
  "note_velocity \<equiv> data2"

abbreviation ctrl_param :: "MidiEvent \<Rightarrow> int" where
  "ctrl_param \<equiv> data1"

abbreviation ctrl_value :: "MidiEvent \<Rightarrow> int" where
  "ctrl_value \<equiv> data2"

text \<open>
  Modelled from the spec: what the declaration \<open>MidiEvent ev;\<close> leaves in the struct is
  decided by the constructor in midi\_event.hh. A decoded event of type None has ``no
  payload fields populated'', so no property below depends on the payload chosen here.
\<close>

definition MidiEvent_default :: MidiEvent where
  "MidiEvent_default =
     \<lparr>ev_type = MIDI_EVENT_NONE, port = 0, channel = 0, data1 = 0, data2 = 0\<rparr>"

type_synonym jack_midi_data_t = "8 word"

text \<open>
  A \<open>jack_midi_event_t\<close> is read through its \<open>buffer\<close> pointer only; it is modelled as
  the bytes the pointer refers to. The source indexes the buffer without looking at the
  event's size, so a read past the end is undefined behaviour and becomes an error of the
  model.
\<close>

type_synonym jack_midi_event_t = "jack_midi_data_t list"

datatype error =
    BackendError string
  | OutOfBounds

definition buffer_at :: "jack_midi_event_t \<Rightarrow> nat \<Rightarrow> error + jack_midi_data_t" where
  "buffer_at data i = (if i < length data then Inr (data ! i) else Inl OutOfBounds)"

definition bind_err :: "error + 'a \<Rightarrow> ('a \<Rightarrow> error + 'b) \<Rightarrow> error + 'b" where
  "bind_err m f = (case m of Inl e \<Rightarrow> Inl e | Inr x \<Rightarrow> f x)"

subsection \<open>Decoding: \<open>BackendJack::jack_to_midi_event\<close>\<close>

text \<open>
  The bytes are \<open>unsigned char\<close>; in every expression they are promoted to \<open>int\<close>
  (\<open>uint\<close>) before \<open>&\<close>, \<open><<\<close>, \<open>|\<close> and \<open>-\<close> are applied.
\<close>

definition jack_to_midi_event :: "jack_midi_event_t \<Rightarrow> int \<Rightarrow> error + MidiEvent" where
  "jack_to_midi_event data p =
     bind_err (buffer_at data 0) (\<lambda>d0.
       let ev = MidiEvent_default\<lparr>port := p, channel := uint d0 AND 0x0f\<rparr>;
           sw = uint d0 AND 0xf0
       in if sw = 0x90 then
            bind_err (buffer_at data 1) (\<lambda>d1.
            bind_err (buffer_at data 2) (\<lambda>d2.
              Inr (ev\<lparr>ev_type := MIDI_EVENT_NOTEON, data1 := uint d1, data2 := uint d2\<rparr>)))
          else if sw = 0x80 then
            bind_err (buffer_at data 1) (\<lambda>d1.
            bind_err (buffer_at data 2) (\<lambda>d2.
              Inr (ev\<lparr>ev_type := MIDI_EVENT_NOTEOFF, data1 := uint d1, data2 := uint d2\<rparr>)))
          else if sw = 0xb0 then
            bind_err (buffer_at data 1) (\<lambda>d1.
            bind_err (buffer_at data 2) (\<lambda>d2.
              Inr (ev\<lparr>ev_type := MIDI_EVENT_CTRL, data1 := uint d1, data2 := uint d2\<rparr>)))
          else if sw = 0xe0 then
            bind_err (buffer_at data 2) (\<lambda>d2.
            bind_err (buffer_at data 1) (\<lambda>d1.
              Inr (ev\<lparr>ev_type := MIDI_EVENT_PITCHBEND, data1 := 0,
                      data2 := (push_bit 7 (uint d2) OR uint d1) - 8192\<rparr>)))
          else if sw = 0xc0 then
            bind_err (buffer_at data 1) (\<lambda>d1.
              Inr (ev\<lparr>ev_type := MIDI_EVENT_PROGRAM, data1 := 0, data2 := uint d1\<rparr>))
          else
            Inr (ev\<lparr>ev_type := MIDI_EVENT_NONE\<rparr>))"

subsection \<open>Encoding: \<open>BackendJack::midi_event_to_jack\<close>\<close>

text \<open>
  The caller's buffer is \<open>unsigned char data[3]\<close>; the function receives it with whatever
  it holds and returns it updated, together with \<open>len\<close> and \<open>port\<close>. Storing an \<open>int\<close>
  into an \<open>unsigned char\<close> keeps its low eight bits (\<open>word_of_int\<close>). \<open>%\<close> and \<open>/\<close> on C
  integers truncate towards zero (\<open>smod\<close>, \<open>sdiv\<close>).
\<close>

type_synonym data3 = "jack_midi_data_t \<times> jack_midi_data_t \<times> jack_midi_data_t"

definition to_uchar :: "int \<Rightarrow> jack_midi_data_t" where
  "to_uchar i = word_of_int i"

definition midi_event_to_jack :: "MidiEvent \<Rightarrow> data3 \<Rightarrow> data3 \<times> nat \<times> int" where
  "midi_event_to_jack ev data =
     (case data of (b0, b1, b2) \<Rightarrow>
        let (data', len) =
              (case ev_type ev of
                 MIDI_EVENT_NOTEON \<Rightarrow>
                   ((0x90, to_uchar (note_note ev), to_uchar (note_velocity ev)), 3)
               | MIDI_EVENT_NOTEOFF \<Rightarrow>
                   ((0x80, to_uchar (note_note ev), to_uchar (note_velocity ev)), 3)
               | MIDI_EVENT_CTRL \<Rightarrow>
                   ((0xb0, to_uchar (ctrl_param ev), to_uchar (ctrl_value ev)), 3)
               | MIDI_EVENT_PITCHBEND \<Rightarrow>
                   ((0xe0, to_uchar ((ctrl_value ev + 8192) smod 128),
                           to_uchar ((ctrl_value ev + 8192) sdiv 128)), 3)
               | MIDI_EVENT_PROGRAM \<Rightarrow>
                   ((0xc0, to_uchar (ctrl_value ev), b2), 2)
               | _ \<Rightarrow> ((b0, b1, b2), 0))
        in (case data' of (c0, c1, c2) \<Rightarrow>
              ((to_uchar (uint c0 OR channel ev), c1, c2), len, port ev)))"

text \<open>
  The message \<open>jack_midi_event_write(port_buffer, 0, data, len)\<close> puts on the wire: the
  first \<open>len\<close> bytes of the buffer.
\<close>

definition wire_message :: "data3 \<Rightarrow> nat \<Rightarrow> jack_midi_event_t" where
  "wire_message data len = (case data of (b0, b1, b2) \<Rightarrow> take len [b0, b1, b2])"

subsection \<open>The event queues\<close>

text \<open>
  Modelled from the spec: the ring buffer class of \<open>_in_rb\<close> and \<open>_out_rb\<close> is declared
  in a header that is not part of the sources at hand. It is a bounded first-in first-out
  queue of fixed capacity: \<open>write\<close> drops the event when the queue is full, \<open>read\<close>
  returns false and leaves its argument untouched when the queue is empty,
  \<open>read_space\<close> is the number of unread events and \<open>reset\<close> discards all of them. The
  unread events between the two cursors are the list \<open>rb_items\<close>, oldest first.
\<close>

record ringbuffer =
  rb_capacity :: nat
  rb_items :: "MidiEvent list"

definition rb_new :: "nat \<Rightarrow> ringbuffer" where
  "rb_new n = \<lparr>rb_capacity = n, rb_items = []\<rparr>"

definition rb_read_space :: "ringbuffer \<Rightarrow> nat" where
  "rb_read_space rb = length (rb_items rb)"

definition rb_write :: "MidiEvent \<Rightarrow> ringbuffer \<Rightarrow> ringbuffer" where
  "rb_write ev rb =
     (if length (rb_items rb) < rb_capacity rb then rb\<lparr>rb_items := rb_items rb @ [ev]\<rparr>
      else rb)"

definition rb_read :: "ringbuffer \<Rightarrow> MidiEvent \<Rightarrow> bool \<times> MidiEvent \<times> ringbuffer" where
  "rb_read rb ev =
     (case rb_items rb of
        [] \<Rightarrow> (False, ev, rb)
      | x # xs \<Rightarrow> (True, x, rb\<lparr>rb_items := xs\<rparr>))"

definition rb_reset :: "ringbuffer \<Rightarrow> ringbuffer" where
  "rb_reset rb = rb\<lparr>rb_items := []\<rparr>"

subsection \<open>The bridge object and the JACK library\<close>

type_synonym jack_client_t = nat
type_synonym jack_port_t = nat

text \<open>
  The members of \<open>BackendJack\<close> as the source uses them. \<open>notified\<close> counts the calls of
  \<open>_cond.notify_one()\<close>: it is what the callback does to the wake signal.
\<close>

record BackendJack =
  client :: jack_client_t
  in_ports :: "jack_port_t list"
  out_ports :: "jack_port_t list"
  in_rb :: ringbuffer
  out_rb :: ringbuffer
  notified :: nat

datatype JackPortFlags = JackPortIsInput | JackPortIsOutput

text \<open>
  The answers of the JACK library to the three calls of the constructor that can fail: a
  null pointer is \<open>None\<close>, and \<open>jack_activate\<close> answers nonzero on failure.
\<close>

record jack_server =
  jack_client_open :: "string \<Rightarrow> jack_client_t option"
  jack_port_register :: "jack_client_t \<Rightarrow> string \<Rightarrow> JackPortFlags \<Rightarrow> jack_port_t option"
  jack_activate :: "jack_client_t \<Rightarrow> int"

subsection \<open>Construction: \<open>BackendJack::BackendJack\<close>\<close>

text \<open>
  One registration loop: the handles registered so far, or \<open>None\<close> at the first null
  handle, where the source throws.
\<close>

fun register_ports ::
  "jack_server \<Rightarrow> jack_client_t \<Rightarrow> JackPortFlags \<Rightarrow> string list \<Rightarrow> jack_port_t list option"
where
  "register_ports srv c f [] = Some []"
| "register_ports srv c f (n # ns) =
     (case jack_port_register srv c n f of
        None \<Rightarrow> None
      | Some p \<Rightarrow>
          (case register_ports srv c f ns of
             None \<Rightarrow> None
           | Some ps \<Rightarrow> Some (p # ps)))"

text \<open>
  \<open>max_jack_events\<close> is \<open>Config::MAX_JACK_EVENTS\<close> (config.hh, not at hand). Setting the
  process callback (line 38) gives no answer the constructor looks at. The three
  \<open>ASSERT\<close>s (util/debug.hh, not at hand) guard the non-empty names the constructor
  expects; a failed assertion is not a \<open>BackendError\<close> and is kept apart from it.
\<close>

datatype ctor_result =
    AssertionFailed
  | Thrown error
  | Constructed BackendJack

definition BackendJack_ctor ::
  "jack_server \<Rightarrow> nat \<Rightarrow> string \<Rightarrow> string list \<Rightarrow> string list \<Rightarrow> ctor_result"
where
  "BackendJack_ctor srv max_jack_events client_name in_portnames out_portnames =
     (if client_name = [] \<or> in_portnames = [] \<or> out_portnames = [] then AssertionFailed
      else case jack_client_open srv client_name of
        None \<Rightarrow> Thrown (BackendError ''can't connect to jack server'')
      | Some c \<Rightarrow>
          (case register_ports srv c JackPortIsInput in_portnames of
             None \<Rightarrow> Thrown (BackendError ''error creating input port'')
           | Some ips \<Rightarrow>
               (case register_ports srv c JackPortIsOutput out_portnames of
                  None \<Rightarrow> Thrown (BackendError ''error creating output port'')
                | Some ops \<Rightarrow>
                    if jack_activate srv c \<noteq> 0
                    then Thrown (BackendError ''can't activate client'')
                    else Constructed
                      \<lparr>client = c, in_ports = ips, out_ports = ops,
                       in_rb = rb_new max_jack_events, out_rb = rb_new max_jack_events,
                       notified = 0\<rparr>)))"

subsection \<open>The realtime callback: \<open>BackendJack::process\<close>\<close>

text \<open>
  The port buffers belong to the JACK library. The input side gives, for each port handle,
  the raw events of the block; the output side holds, for each port handle, the events
  written so far, each with its frame offset.
\<close>

type_synonym in_buffers = "jack_port_t \<Rightarrow> jack_midi_event_t list"
type_synonym out_buffers = "jack_port_t \<Rightarrow> (nat \<times> jack_midi_event_t) list"

text \<open>The inner loop over the events of input port \<open>n\<close>.\<close>

fun write_events :: "jack_midi_event_t list \<Rightarrow> int \<Rightarrow> ringbuffer \<Rightarrow> error + ringbuffer" where
  "write_events [] n rb = Inr rb"
| "write_events (jack_ev # rest) n rb =
     bind_err (jack_to_midi_event jack_ev n) (\<lambda>ev. write_events rest n (rb_write ev rb))"

text \<open>The outer loop over the input ports, from index \<open>n\<close> on.\<close>

fun read_in_ports ::
  "in_buffers \<Rightarrow> jack_port_t list \<Rightarrow> nat \<Rightarrow> ringbuffer \<times> nat \<Rightarrow> error + ringbuffer \<times> nat"
where
  "read_in_ports bufs [] n (rb, k) = Inr (rb, k)"
| "read_in_ports bufs (p # ps) n (rb, k) =
     bind_err (write_events (bufs p) (int n) rb) (\<lambda>rb'.
       read_in_ports bufs ps (Suc n) (rb', if length (bufs p) \<noteq> 0 then Suc k else k))"

definition jack_midi_clear_buffer :: "out_buffers \<Rightarrow> jack_port_t \<Rightarrow> out_buffers" where
  "jack_midi_clear_buffer bufs p = bufs(p := [])"

fun clear_out_ports :: "jack_port_t list \<Rightarrow> out_buffers \<Rightarrow> out_buffers" where
  "clear_out_ports [] bufs = bufs"
| "clear_out_ports (p # ps) bufs = clear_out_ports ps (jack_midi_clear_buffer bufs p)"

definition jack_midi_event_write ::
  "out_buffers \<Rightarrow> jack_port_t \<Rightarrow> nat \<Rightarrow> data3 \<Rightarrow> nat \<Rightarrow> out_buffers"
where
  "jack_midi_event_write bufs p time data len =
     bufs(p := bufs p @ [(time, wire_message data len)])"

text \<open>
  The body of the output loop after the event is read (lines 106 to 114). The local buffer
  \<open>data\<close> is not initialised by the source: \<open>stack\<close> is what it happens to hold.
  \<open>_out_ports[port]\<close> is indexed unchecked, so an index outside the vector is an error
  of the model.
\<close>

definition emit ::
  "data3 \<Rightarrow> jack_port_t list \<Rightarrow> MidiEvent \<Rightarrow> out_buffers \<Rightarrow> error + out_buffers"
where
  "emit stack ports ev bufs =
     (case midi_event_to_jack ev stack of (data, len, p) \<Rightarrow>
        if len \<noteq> 0 then
          (if 0 \<le> p \<and> p < int (length ports)
           then Inr (jack_midi_event_write bufs (ports ! nat p) 0 data len)
           else Inl OutOfBounds)
        else Inr bufs)"

text \<open>The output loop \<open>while (_out_rb.read_space())\<close>.\<close>

function drain_out ::
  "data3 \<Rightarrow> jack_port_t list \<Rightarrow> ringbuffer \<Rightarrow> out_buffers \<Rightarrow> error + ringbuffer \<times> out_buffers"
where
  "drain_out stack ports rb bufs =
     (if rb_read_space rb \<noteq> 0 then
        (case rb_read rb MidiEvent_default of (ok, ev, rb') \<Rightarrow>
           (case emit stack ports ev bufs of
              Inl e \<Rightarrow> Inl e
            | Inr bufs' \<Rightarrow> drain_out stack ports rb' bufs'))
      else Inr (rb, bufs))"
  by pat_completeness auto
termination
  by (relation "measure (\<lambda>(stack, ports, rb, bufs). rb_read_space rb)")
     (auto simp add: rb_read_space_def rb_read_def split: list.splits)

definition process ::
  "data3 \<Rightarrow> in_buffers \<Rightarrow> out_buffers \<Rightarrow> BackendJack \<Rightarrow> error + BackendJack \<times> out_buffers"
where
  "process stack ins outs s =
     bind_err (read_in_ports ins (in_ports s) 0 (in_rb s, notified s)) (\<lambda>(rb_in, k).
       bind_err (drain_out stack (out_ports s) (out_rb s) (clear_out_ports (out_ports s) outs))
         (\<lambda>(rb_out, outs').
            Inr (s\<lparr>in_rb := rb_in, out_rb := rb_out, notified := k\<rparr>, outs')))"

subsection \<open>The operations of the application thread\<close>

text \<open>
  \<open>input_event\<close> touches the inbound queue only. While the queue is empty the thread
  sleeps in \<open>_cond.wait\<close>; the only other party that changes the inbound queue meanwhile
  is the callback, which writes to it. \<open>wakeups\<close> lists, for each time the thread comes
  back from the wait, the events the callback has written since the last check (none
  for a spurious wake-up). When no wake-up is left the thread sleeps forever: the call
  does not return, which is \<open>None\<close>.
\<close>

fun input_event ::
  "MidiEvent list list \<Rightarrow> ringbuffer \<Rightarrow> MidiEvent \<Rightarrow> (MidiEvent \<times> ringbuffer) option"
where
  "input_event [] rb ev =
     (if rb_read_space rb = 0 then None
      else (case rb_read rb ev of (ok, ev', rb') \<Rightarrow> Some (ev', rb')))"
| "input_event (w # ws) rb ev =
     (if rb_read_space rb = 0 then input_event ws (fold rb_write w rb) ev
      else (case rb_read rb ev of (ok, ev', rb') \<Rightarrow> Some (ev', rb')))"

definition output_event :: "MidiEvent \<Rightarrow> BackendJack \<Rightarrow> BackendJack" where
  "output_event ev s = s\<lparr>out_rb := rb_write ev (out_rb s)\<rparr>"

definition drop_input :: "BackendJack \<Rightarrow> BackendJack" where
  "drop_input s = s\<lparr>in_rb := rb_reset (in_rb s)\<rparr>"

definition flush_output :: "BackendJack \<Rightarrow> BackendJack" where
  "flush_output s = s"

subsection \<open>The documented ranges and the notions the properties are stated with\<close>

text \<open>
  The variants the wire format can carry: every type but None (and but any value the
  \<open>default:\<close> branch of the encoder catches).
\<close>

definition representable :: "MidiEventType \<Rightarrow> bool" where
  "representable t \<longleftrightarrow>
     t = MIDI_EVENT_NOTEON \<or> t = MIDI_EVENT_NOTEOFF \<or> t = MIDI_EVENT_CTRL \<or>
     t = MIDI_EVENT_PITCHBEND \<or> t = MIDI_EVENT_PROGRAM"

definition in_byte_range :: "int \<Rightarrow> bool" where
  "in_byte_range v \<longleftrightarrow> 0 \<le> v \<and> v \<le> 127"

text \<open>
  The documented ranges of the data model, in the words of the specification: channel 0 to 15; note, velocity, controller
  number, controller value and program number 0 to 127; pitch-bend value -8192 to 8191.
  The param slot is unused by PitchBend and Program and has no range of its own.
\<close>

definition spec_in_range :: "MidiEvent \<Rightarrow> bool" where
  "spec_in_range ev \<longleftrightarrow>
     0 \<le> channel ev \<and> channel ev \<le> 15 \<and>
     (case ev_type ev of
        MIDI_EVENT_NOTEON \<Rightarrow> in_byte_range (note_note ev) \<and> in_byte_range (note_velocity ev)
      | MIDI_EVENT_NOTEOFF \<Rightarrow> in_byte_range (note_note ev) \<and> in_byte_range (note_velocity ev)
      | MIDI_EVENT_CTRL \<Rightarrow> in_byte_range (ctrl_param ev) \<and> in_byte_range (ctrl_value ev)
      | MIDI_EVENT_PITCHBEND \<Rightarrow> - 8192 \<le> ctrl_value ev \<and> ctrl_value ev \<le> 8191
      | MIDI_EVENT_PROGRAM \<Rightarrow> in_byte_range (ctrl_value ev)
      | _ \<Rightarrow> True)"

text \<open>
  What the decoder does to the unused param slot: lines 148 and 153 store 0 there for
  PitchBend and Program.
\<close>

definition param_forced :: "MidiEvent \<Rightarrow> MidiEvent" where
  "param_forced ev =
     (if ev_type ev = MIDI_EVENT_PITCHBEND \<or> ev_type ev = MIDI_EVENT_PROGRAM
      then ev\<lparr>data1 := 0\<rparr> else ev)"

text \<open>
  Encoding an event and decoding the message that goes on the wire, with the port the
  encoder returned.
\<close>

definition decode_encoded :: "MidiEvent \<Rightarrow> data3 \<Rightarrow> error + MidiEvent" where
  "decode_encoded ev stack =
     (case midi_event_to_jack ev stack of (data, len, p) \<Rightarrow>
        jack_to_midi_event (wire_message data len) p)"

text \<open>
  The status bases as the specification lists them, to compare the encoder with; 0 where
  a type has no base.
\<close>

definition spec_base_status :: "MidiEventType \<Rightarrow> jack_midi_data_t" where
  "spec_base_status t =
     (case t of
        MIDI_EVENT_NOTEON \<Rightarrow> 0x90
      | MIDI_EVENT_NOTEOFF \<Rightarrow> 0x80
      | MIDI_EVENT_CTRL \<Rightarrow> 0xb0
      | MIDI_EVENT_PITCHBEND \<Rightarrow> 0xe0
      | MIDI_EVENT_PROGRAM \<Rightarrow> 0xc0
      | _ \<Rightarrow> 0)"

text \<open>The parts of the encoder's result.\<close>

definition enc_status :: "data3 \<times> nat \<times> int \<Rightarrow> jack_midi_data_t" where
  "enc_status r = (case r of ((c0, c1, c2), len, p) \<Rightarrow> c0)"

definition enc_data :: "data3 \<times> nat \<times> int \<Rightarrow> jack_midi_data_t \<times> jack_midi_data_t" where
  "enc_data r = (case r of ((c0, c1, c2), len, p) \<Rightarrow> (c1, c2))"

definition enc_len :: "data3 \<times> nat \<times> int \<Rightarrow> nat" where
  "enc_len r = (case r of ((c0, c1, c2), len, p) \<Rightarrow> len)"

definition enc_port :: "data3 \<times> nat \<times> int \<Rightarrow> int" where
  "enc_port r = (case r of ((c0, c1, c2), len, p) \<Rightarrow> p)"

text \<open>A port registration loop meets a null handle: some name of the list is refused.\<close>

definition registration_fails ::
  "jack_server \<Rightarrow> jack_client_t \<Rightarrow> JackPortFlags \<Rightarrow> string list \<Rightarrow> bool" where
  "registration_fails srv c f names \<longleftrightarrow> (\<exists>n \<in> set names. jack_port_register srv c n f = None)"

definition throws_BackendError :: "ctor_result \<Rightarrow> bool" where
  "throws_BackendError r = (case r of Thrown (BackendError m) \<Rightarrow> True | _ \<Rightarrow> False)"

text \<open>An outbound queue without the events the encoder gives length 0.\<close>

definition without_unrepresentable :: "ringbuffer \<Rightarrow> ringbuffer" where
  "without_unrepresentable rb =
     rb\<lparr>rb_items := filter (\<lambda>ev. representable (ev_type ev)) (rb_items rb)\<rparr>"

text \<open>
  The inbound queue as the thread in \<open>input_event\<close> finds it at its \<open>n\<close>-th wake-up: what
  the callback wrote up to then, nothing read yet.
\<close>

definition arrived :: "nat \<Rightarrow> MidiEvent list list \<Rightarrow> ringbuffer \<Rightarrow> ringbuffer" where
  "arrived n wakeups rb = fold (fold rb_write) (take n wakeups) rb"

text \<open>
  \<open>input_event\<close> returns \<open>ev'\<close> and leaves the queue \<open>rb'\<close>, having found the queue
  \<open>q\<close>: \<open>q\<close> is not empty, the one read succeeded, and it took exactly the oldest event
  off \<open>q\<close>.
\<close>

definition returned_from ::
  "ringbuffer \<Rightarrow> MidiEvent \<Rightarrow> MidiEvent \<Rightarrow> ringbuffer \<Rightarrow> bool" where
  "returned_from q ev ev' rb' \<longleftrightarrow>
     rb_read_space q \<noteq> 0 \<and> rb_read q ev = (True, ev', rb') \<and>
     rb_items q = ev' # rb_items rb' \<and> rb_capacity rb' = rb_capacity q"

subsection \<open>Concrete inputs for the examples\<close>

definition note_a :: MidiEvent where
  "note_a = \<lparr>ev_type = MIDI_EVENT_NOTEON, port = 0, channel = 1, data1 = 60, data2 = 100\<rparr>"

definition note_b :: MidiEvent where
  "note_b = \<lparr>ev_type = MIDI_EVENT_NOTEOFF, port = 0, channel = 1, data1 = 60, data2 = 0\<rparr>"

definition none_ev :: MidiEvent where
  "none_ev = \<lparr>ev_type = MIDI_EVENT_NONE, port = 99, channel = 2, data1 = 0, data2 = 0\<rparr>"

definition no_output :: out_buffers where
  "no_output = (\<lambda>p. [])"

definition no_input :: in_buffers where
  "no_input = (\<lambda>p. [])"

definition bridge_ex :: BackendJack where
  "bridge_ex =
     \<lparr>client = 1, in_ports = [2], out_ports = [3],
      in_rb = rb_new 4,
      out_rb = \<lparr>rb_capacity = 4, rb_items = [none_ev, note_a]\<rparr>,
      notified = 0\<rparr>"

text \<open>A JACK library with no server to connect to.\<close>

definition server_down :: jack_server where
  "server_down =
     \<lparr>jack_client_open = (\<lambda>name. None),
      jack_port_register = (\<lambda>c name f. Some 0),
      jack_activate = (\<lambda>c. 0)\<rparr>"

text \<open>A JACK library that accepts every port name but \<open>bad\<close>.\<close>

definition server_up :: jack_server where
  "server_up =
     \<lparr>jack_client_open = (\<lambda>name. Some 1),
      jack_port_register = (\<lambda>c name f. if name = ''bad'' then None else Some (length name)),
      jack_activate = (\<lambda>c. 0)\<rparr>"

section \<open>Arithmetic of the codec\<close>

declare drain_out.simps [simp del]

lemma nibble_cases:
  "0 \<le> k \<Longrightarrow> k \<le> 15 \<Longrightarrow> k \<in> {0, 1, 2, 3, 4, 5, 6, 7, 8, 9, 10, 11, 12, 13, 14, 15::int}"
  by (simp add: insert_iff) arith

lemma uint_to_uchar: "0 \<le> v \<Longrightarrow> v < 256 \<Longrightarrow> uint (to_uchar v) = v"
  by (simp add: to_uchar_def uint_word_of_int take_bit_int_eq_self)

lemma to_uchar_or: "to_uchar (uint c OR k) = c OR to_uchar k"
  by (metis to_uchar_def word_of_int_uint word_wi_log_defs(3))

lemma uint_le127: "(d::8 word) \<le> 127 \<Longrightarrow> uint d \<le> 127"
  by (simp add: word_le_def)

text \<open>Seven low bits and the bits above them make up the number again.\<close>

lemma pitchbend_join: "push_bit 7 (n div 128) OR (n mod 128) = (n::int)"
proof -
  have d: "n div 128 = drop_bit 7 n" by (simp add: drop_bit_eq_div)
  have m: "n mod 128 = take_bit 7 n" by (simp add: take_bit_eq_mod)
  have z: "push_bit 7 (drop_bit 7 n) AND take_bit 7 n = 0"
    by (rule bit_eqI) (auto simp add: bit_simps)
  have "push_bit 7 (drop_bit 7 n) OR take_bit 7 n = push_bit 7 (drop_bit 7 n) + take_bit 7 n"
    using disjunctive_add_eq_or [OF z] by simp
  also have "\<dots> = n" by (rule bits_ident)
  finally show ?thesis by (simp only: d m)
qed

lemma pitchbend_bound:
  "0 \<le> a \<Longrightarrow> a \<le> 127 \<Longrightarrow> 0 \<le> b \<Longrightarrow> b \<le> 127 \<Longrightarrow>
   0 \<le> (push_bit 7 a OR b) \<and> (push_bit 7 a OR b) < (2::int) ^ 14"
  by (intro conjI OR_upper) (simp_all add: push_bit_eq_mult)

lemma status_nibbles:
  assumes "0 \<le> k" "k \<le> 15" "b \<in> {0x90, 0x80, 0xb0, 0xe0, 0xc0::8 word}"
  shows "uint (to_uchar (uint b OR k)) AND 0xf0 = uint b"
    and "uint (to_uchar (uint b OR k)) AND 0x0f = k"
  using nibble_cases [OF assms(1,2)] assms(3)
  by (auto simp add: to_uchar_def)

lemma smod_nonneg: "0 \<le> n \<Longrightarrow> n smod 128 = (n::int) mod 128"
  by (simp add: signed_modulo_int_def sgn_if)

lemma sdiv_nonneg: "0 \<le> n \<Longrightarrow> n sdiv 128 = (n::int) div 128"
  by (simp add: signed_divide_int_def sgn_if)

section \<open>The decoder and the encoder on whole messages\<close>

lemma decode3:
  "jack_to_midi_event [d0, d1, d2] p =
     (let ev = MidiEvent_default\<lparr>port := p, channel := uint d0 AND 0x0f\<rparr>;
          sw = uint d0 AND 0xf0
      in if sw = 0x90 then
           Inr (ev\<lparr>ev_type := MIDI_EVENT_NOTEON, data1 := uint d1, data2 := uint d2\<rparr>)
         else if sw = 0x80 then
           Inr (ev\<lparr>ev_type := MIDI_EVENT_NOTEOFF, data1 := uint d1, data2 := uint d2\<rparr>)
         else if sw = 0xb0 then
           Inr (ev\<lparr>ev_type := MIDI_EVENT_CTRL, data1 := uint d1, data2 := uint d2\<rparr>)
         else if sw = 0xe0 then
           Inr (ev\<lparr>ev_type := MIDI_EVENT_PITCHBEND, data1 := 0,
                   data2 := (push_bit 7 (uint d2) OR uint d1) - 8192\<rparr>)
         else if sw = 0xc0 then
           Inr (ev\<lparr>ev_type := MIDI_EVENT_PROGRAM, data1 := 0, data2 := uint d1\<rparr>)
         else Inr (ev\<lparr>ev_type := MIDI_EVENT_NONE\<rparr>))"
  by (simp add: jack_to_midi_event_def bind_err_def buffer_at_def Let_def)

lemma decode2:
  "uint d0 AND 0xf0 = 0xc0 \<Longrightarrow> jack_to_midi_event [d0, d1] p =
     Inr (MidiEvent_default\<lparr>port := p, channel := uint d0 AND 0x0f,
            ev_type := MIDI_EVENT_PROGRAM, data1 := 0, data2 := uint d1\<rparr>)"
  by (simp add: jack_to_midi_event_def bind_err_def buffer_at_def Let_def)

lemma enc_len_iff:
  "enc_len (midi_event_to_jack ev stack) \<noteq> 0 \<longleftrightarrow> representable (ev_type ev)"
  by (cases stack; cases "ev_type ev")
     (simp_all add: enc_len_def midi_event_to_jack_def representable_def)

lemma enc_status_eq:
  "enc_status (midi_event_to_jack ev (b0, b1, b2)) =
     (if representable (ev_type ev) then spec_base_status (ev_type ev) else b0)
     OR to_uchar (channel ev)"
  by (cases "ev_type ev")
     (simp_all add: enc_status_def midi_event_to_jack_def representable_def
        spec_base_status_def to_uchar_or del: word_no_log_defs)

lemma enc_port_eq: "enc_port (midi_event_to_jack ev stack) = port ev"
  by (cases stack; cases "ev_type ev") (simp_all add: enc_port_def midi_event_to_jack_def)

text \<open>
  The struct the decoder returns for an encoded event, field by field: the original, with
  0 in the param slot of PitchBend and Program.
\<close>

lemma roundtrip_exact:
  assumes r: "representable (ev_type ev)" and i: "spec_in_range ev"
  shows "decode_encoded ev stack = Inr (param_forced ev)"
proof -
  obtain b0 b1 b2 where st: "stack = (b0, b1, b2)" by (cases stack) auto
  have c: "0 \<le> channel ev" "channel ev \<le> 15" using i by (simp_all add: spec_in_range_def)
  note nib = status_nibbles [OF c]
  from r consider
      "ev_type ev = MIDI_EVENT_NOTEON" | "ev_type ev = MIDI_EVENT_NOTEOFF"
    | "ev_type ev = MIDI_EVENT_CTRL" | "ev_type ev = MIDI_EVENT_PITCHBEND"
    | "ev_type ev = MIDI_EVENT_PROGRAM"
    by (auto simp add: representable_def)
  then show ?thesis
  proof cases
    case 1
    with i have "0 \<le> data1 ev" "data1 ev < 256" "0 \<le> data2 ev" "data2 ev < 256"
      by (simp_all add: spec_in_range_def in_byte_range_def)
    then show ?thesis using 1 nib [of "0x90"]
      by (simp add: decode_encoded_def midi_event_to_jack_def st wire_message_def decode3
          uint_to_uchar param_forced_def MidiEvent_default_def)
  next
    case 2
    with i have "0 \<le> data1 ev" "data1 ev < 256" "0 \<le> data2 ev" "data2 ev < 256"
      by (simp_all add: spec_in_range_def in_byte_range_def)
    then show ?thesis using 2 nib [of "0x80"]
      by (simp add: decode_encoded_def midi_event_to_jack_def st wire_message_def decode3
          uint_to_uchar param_forced_def MidiEvent_default_def)
  next
    case 3
    with i have "0 \<le> data1 ev" "data1 ev < 256" "0 \<le> data2 ev" "data2 ev < 256"
      by (simp_all add: spec_in_range_def in_byte_range_def)
    then show ?thesis using 3 nib [of "0xb0"]
      by (simp add: decode_encoded_def midi_event_to_jack_def st wire_message_def decode3
          uint_to_uchar param_forced_def MidiEvent_default_def)
  next
    case 4
    define n where "n = data2 ev + 8192"
    with 4 i have n: "0 \<le> n" "n < 16384" by (simp_all add: spec_in_range_def)
    have m: "0 \<le> n mod 128" "n mod 128 < 256" using n by simp_all
    have d: "0 \<le> n div 128" "n div 128 < 256" using n by simp_all
    have j: "(push_bit 7 (n div 128) OR (n mod 128)) - 8192 = data2 ev"
      unfolding pitchbend_join by (simp add: n_def)
    show ?thesis using 4 nib [of "0xe0"] j
      by (simp add: decode_encoded_def midi_event_to_jack_def st wire_message_def decode3
          smod_nonneg [OF n(1)] sdiv_nonneg [OF n(1)] uint_to_uchar [OF m] uint_to_uchar [OF d]
          param_forced_def MidiEvent_default_def flip: n_def)
  next
    case 5
    with i have "0 \<le> data2 ev" "data2 ev < 256"
      by (simp_all add: spec_in_range_def in_byte_range_def)
    then show ?thesis using 5 nib [of "0xc0"]
      by (simp add: decode_encoded_def midi_event_to_jack_def st wire_message_def decode2
          uint_to_uchar param_forced_def MidiEvent_default_def)
  qed
qed

lemma param_forced_same:
  "param_forced ev = ev \<longleftrightarrow>
     (ev_type ev = MIDI_EVENT_PITCHBEND \<or> ev_type ev = MIDI_EVENT_PROGRAM \<longrightarrow> ctrl_param ev = 0)"
  by (cases ev) (auto simp add: param_forced_def)

lemma nibble_word:
  assumes "0 \<le> k" "k \<le> 15" "b \<in> {0x90, 0x80, 0xb0, 0xe0, 0xc0::8 word}"
  shows "(b OR to_uchar k) AND 0xf0 = b" and "uint ((b OR to_uchar k) AND 0x0f) = k"
    and "k AND 0x0f = k"
  using nibble_cases [OF assms(1,2)] assms(3)
  by (auto simp add: to_uchar_def)

lemma pitchbend_status_nibbles:
  "uint ((0xe0::8 word) OR (c AND 0x0f)) AND 0xf0 = 0xe0"
  "uint ((0xe0::8 word) OR (c AND 0x0f)) AND 0x0f = uint c AND 0x0f"
proof -
  have u: "uint ((0xe0::8 word) OR (c AND 0x0f)) = 0xe0 OR (uint c AND 0x0f)"
    by (simp add: uint_or uint_and)
  have "(0xe0 OR (uint c AND 0x0f)) AND 0xf0 = (0xe0::int)"
    by (simp add: bit.conj_disj_distribs and.assoc)
  then show "uint ((0xe0::8 word) OR (c AND 0x0f)) AND 0xf0 = 0xe0"
    using u by simp
  have "(0xe0 OR (uint c AND 0x0f)) AND 0x0f = (uint c AND 0x0f::int)"
    by (simp add: bit.conj_disj_distribs and.assoc)
  then show "uint ((0xe0::8 word) OR (c AND 0x0f)) AND 0x0f = uint c AND 0x0f"
    using u by simp
qed

lemma decode_other_status:
  assumes "uint d0 AND 0xf0 \<notin> {0x90, 0x80, 0xb0, 0xe0, 0xc0}"
  shows "jack_to_midi_event (d0 # rest) p =
           Inr (MidiEvent_default\<lparr>port := p, channel := uint d0 AND 0x0f\<rparr>)"
  using assms
  by (simp add: jack_to_midi_event_def bind_err_def buffer_at_def Let_def MidiEvent_default_def)

section \<open>The codec\<close>

text \<open>
  C1, as the source has it. For every event of a representable variant (NoteOn, NoteOff,
  Control, PitchBend, Program) whose fields lie in the documented ranges, whatever the
  caller's buffer held, decoding the message the encoder produces, with the port the
  encoder returns, succeeds and yields the original event with 0 in the param slot of a
  PitchBend or Program event, the slot these two variants do not use. So the decoded
  event is equal to the original exactly when the event is a NoteOn, NoteOff or Control
  event, or its param slot holds 0.
\<close>

theorem roundtrip_decode_encode:
  assumes "representable (ev_type ev)" and "spec_in_range ev"
  shows "decode_encoded ev stack = Inr (param_forced ev) \<and>
         (decode_encoded ev stack = Inr ev \<longleftrightarrow>
            (ev_type ev = MIDI_EVENT_PITCHBEND \<or> ev_type ev = MIDI_EVENT_PROGRAM \<longrightarrow>
               ctrl_param ev = 0))"
  using roundtrip_exact [OF assms, of stack] param_forced_same [of ev] by simp

theorem roundtrip_decode_encode_witness:
  "decode_encoded
     \<lparr>ev_type = MIDI_EVENT_PITCHBEND, port = 1, channel = 3, data1 = 0, data2 = - 100\<rparr>
     (0, 0, 0) =
     Inr \<lparr>ev_type = MIDI_EVENT_PITCHBEND, port = 1, channel = 3, data1 = 0, data2 = - 100\<rparr>"
  using roundtrip_decode_encode
    [of "\<lparr>ev_type = MIDI_EVENT_PITCHBEND, port = 1, channel = 3, data1 = 0, data2 = - 100\<rparr>"
        "(0, 0, 0)"]
  by (simp add: representable_def spec_in_range_def in_byte_range_def param_forced_def)

text \<open>
  A Program event with 5 in the param slot has every field in its documented range, and
  comes back with 0 in that slot (line 153): the decoded struct is not the original one.
\<close>

theorem roundtrip_unused_param_counterexample:
  "representable
     (ev_type \<lparr>ev_type = MIDI_EVENT_PROGRAM, port = 1, channel = 3, data1 = 5, data2 = 42\<rparr>) \<and>
   spec_in_range
     \<lparr>ev_type = MIDI_EVENT_PROGRAM, port = 1, channel = 3, data1 = 5, data2 = 42\<rparr> \<and>
   decode_encoded
     \<lparr>ev_type = MIDI_EVENT_PROGRAM, port = 1, channel = 3, data1 = 5, data2 = 42\<rparr> (0, 0, 0) =
     Inr \<lparr>ev_type = MIDI_EVENT_PROGRAM, port = 1, channel = 3, data1 = 0, data2 = 42\<rparr> \<and>
   decode_encoded
     \<lparr>ev_type = MIDI_EVENT_PROGRAM, port = 1, channel = 3, data1 = 5, data2 = 42\<rparr> (0, 0, 0) \<noteq>
     Inr \<lparr>ev_type = MIDI_EVENT_PROGRAM, port = 1, channel = 3, data1 = 5, data2 = 42\<rparr>"
  by (simp add: representable_def spec_in_range_def in_byte_range_def decode_encoded_def
      midi_event_to_jack_def wire_message_def to_uchar_def decode2 MidiEvent_default_def)

text \<open>
  C2, as the source has it. For every raw input of a status byte and two data bytes the
  decoder does not reject: it returns an event for the port given, whose channel is the
  low nibble of the status byte, hence within 0 to 15. The data bytes are copied without
  masking; when both are at most 127 every field of the event lies in its documented
  range.
\<close>

theorem decode_tolerant:
  "\<exists>ev. jack_to_midi_event [d0, d1, d2] p = Inr ev \<and> port ev = p \<and>
        channel ev = uint d0 AND 0x0f \<and> 0 \<le> channel ev \<and> channel ev \<le> 15 \<and>
        (d1 \<le> 127 \<and> d2 \<le> 127 \<longrightarrow> spec_in_range ev)"
  using pitchbend_bound [of "uint d2" "uint d1"]
  by (auto simp add: decode3 Let_def MidiEvent_default_def spec_in_range_def in_byte_range_def
       dest!: uint_le127)

theorem decode_tolerant_witness:
  "jack_to_midi_event [0xe5, 1, 64] 2 =
     Inr \<lparr>ev_type = MIDI_EVENT_PITCHBEND, port = 2, channel = 5, data1 = 0, data2 = 1\<rparr> \<and>
   spec_in_range \<lparr>ev_type = MIDI_EVENT_PITCHBEND, port = 2, channel = 5, data1 = 0, data2 = 1\<rparr>"
  using decode_tolerant [of "0xe5" 1 64 2]
  by (simp add: decode3 MidiEvent_default_def)

text \<open>
  A data byte above 127 comes through as it is: the note of the decoded NoteOn is 200,
  outside 0 to 127.
\<close>

theorem decode_unmasked_data_counterexample:
  "jack_to_midi_event [0x90, 200, 0] 0 =
     Inr \<lparr>ev_type = MIDI_EVENT_NOTEON, port = 0, channel = 0, data1 = 200, data2 = 0\<rparr> \<and>
   \<not> spec_in_range \<lparr>ev_type = MIDI_EVENT_NOTEON, port = 0, channel = 0, data1 = 200, data2 = 0\<rparr>"
  by (simp add: decode3 MidiEvent_default_def spec_in_range_def in_byte_range_def)

text \<open>
  C3, as the source has it. For every event whose encoding has nonzero length and whose
  channel lies within 0 to 15, the status byte is the base of the variant or'ed with
  \<open>channel & 0x0F\<close>: its high nibble is the base and its low nibble is the channel.
\<close>

theorem status_byte_channel_in_range:
  assumes "enc_len (midi_event_to_jack ev stack) \<noteq> 0"
    and "0 \<le> channel ev" and "channel ev \<le> 15"
  shows "enc_status (midi_event_to_jack ev stack) =
           spec_base_status (ev_type ev) OR to_uchar (channel ev AND 0x0f) \<and>
         enc_status (midi_event_to_jack ev stack) AND 0xf0 = spec_base_status (ev_type ev) \<and>
         uint (enc_status (midi_event_to_jack ev stack) AND 0x0f) = channel ev"
proof -
  obtain b0 b1 b2 where st: "stack = (b0, b1, b2)" by (cases stack) auto
  have r: "representable (ev_type ev)" using assms(1) unfolding enc_len_iff .
  then have b: "spec_base_status (ev_type ev) \<in> {0x90, 0x80, 0xb0, 0xe0, 0xc0}"
    by (auto simp add: representable_def spec_base_status_def)
  have s: "enc_status (midi_event_to_jack ev stack) =
      spec_base_status (ev_type ev) OR to_uchar (channel ev)"
    using r by (simp only: st enc_status_eq if_True)
  show ?thesis
    unfolding s using nibble_word [OF assms(2,3) b] by (simp del: word_no_log_defs)
qed

theorem status_byte_channel_in_range_witness:
  "enc_status (midi_event_to_jack
      \<lparr>ev_type = MIDI_EVENT_NOTEON, port = 0, channel = 5, data1 = 60, data2 = 100\<rparr>
      (0, 0, 0)) = 0x95"
  using status_byte_channel_in_range
    [of "\<lparr>ev_type = MIDI_EVENT_NOTEON, port = 0, channel = 5, data1 = 60, data2 = 100\<rparr>"
        "(0, 0, 0)"]
  by (simp add: enc_len_def enc_status_def midi_event_to_jack_def to_uchar_def)

text \<open>
  The encoder ors the channel in unmasked (line 201): with channel 32 a NoteOn leaves
  with the status byte 0xB0, the base of Control, where base or'ed with
  \<open>channel & 0x0F\<close> is 0x90.
\<close>

theorem status_unmasked_channel_counterexample:
  "enc_len (midi_event_to_jack
      \<lparr>ev_type = MIDI_EVENT_NOTEON, port = 0, channel = 32, data1 = 60, data2 = 100\<rparr>
      (0, 0, 0)) \<noteq> 0 \<and>
   enc_status (midi_event_to_jack
      \<lparr>ev_type = MIDI_EVENT_NOTEON, port = 0, channel = 32, data1 = 60, data2 = 100\<rparr>
      (0, 0, 0)) = 0xb0 \<and>
   spec_base_status MIDI_EVENT_NOTEON OR to_uchar (32 AND 0x0f) = 0x90"
  by (simp add: midi_event_to_jack_def enc_len_def enc_status_def spec_base_status_def
      to_uchar_def)

text \<open>
  C4. The pitch-bend codec at the ends and the centre: the value -8192 is encoded to the
  data bytes (0, 0), the value 0 to (0, 64) and the value 8191 to (127, 127), whatever
  the port, the channel, the param slot and the caller's buffer; a pitch-bend message on
  any channel with the data bytes (0, 0) is decoded to the value -8192, and one with
  (127, 127) to 8191.
\<close>

theorem pitchbend_endpoints:
  "enc_data (midi_event_to_jack
      \<lparr>ev_type = MIDI_EVENT_PITCHBEND, port = p, channel = c, data1 = x, data2 = - 8192\<rparr>
      stack) = (0, 0) \<and>
   enc_data (midi_event_to_jack
      \<lparr>ev_type = MIDI_EVENT_PITCHBEND, port = p, channel = c, data1 = x, data2 = 0\<rparr>
      stack) = (0, 64) \<and>
   enc_data (midi_event_to_jack
      \<lparr>ev_type = MIDI_EVENT_PITCHBEND, port = p, channel = c, data1 = x, data2 = 8191\<rparr>
      stack) = (127, 127) \<and>
   jack_to_midi_event [0xe0 OR (ch AND 0x0f), 0, 0] q =
     Inr \<lparr>ev_type = MIDI_EVENT_PITCHBEND, port = q, channel = uint ch AND 0x0f,
          data1 = 0, data2 = - 8192\<rparr> \<and>
   jack_to_midi_event [0xe0 OR (ch AND 0x0f), 127, 127] q =
     Inr \<lparr>ev_type = MIDI_EVENT_PITCHBEND, port = q, channel = uint ch AND 0x0f,
          data1 = 0, data2 = 8191\<rparr>"
proof (intro conjI)
  show "enc_data (midi_event_to_jack
      \<lparr>ev_type = MIDI_EVENT_PITCHBEND, port = p, channel = c, data1 = x, data2 = - 8192\<rparr>
      stack) = (0, 0)"
    by (cases stack) (simp add: enc_data_def midi_event_to_jack_def to_uchar_def)
  show "enc_data (midi_event_to_jack
      \<lparr>ev_type = MIDI_EVENT_PITCHBEND, port = p, channel = c, data1 = x, data2 = 0\<rparr>
      stack) = (0, 64)"
    by (cases stack)
       (simp add: enc_data_def midi_event_to_jack_def to_uchar_def
          signed_modulo_int_def signed_divide_int_def)
  show "enc_data (midi_event_to_jack
      \<lparr>ev_type = MIDI_EVENT_PITCHBEND, port = p, channel = c, data1 = x, data2 = 8191\<rparr>
      stack) = (127, 127)"
    by (cases stack)
       (simp add: enc_data_def midi_event_to_jack_def to_uchar_def
          signed_modulo_int_def signed_divide_int_def)
  show "jack_to_midi_event [0xe0 OR (ch AND 0x0f), 0, 0] q =
     Inr \<lparr>ev_type = MIDI_EVENT_PITCHBEND, port = q, channel = uint ch AND 0x0f,
          data1 = 0, data2 = - 8192\<rparr>"
    by (simp add: decode3 pitchbend_status_nibbles MidiEvent_default_def
          del: word_no_log_defs)
  show "jack_to_midi_event [0xe0 OR (ch AND 0x0f), 127, 127] q =
     Inr \<lparr>ev_type = MIDI_EVENT_PITCHBEND, port = q, channel = uint ch AND 0x0f,
          data1 = 0, data2 = 8191\<rparr>"
    by (simp add: decode3 pitchbend_status_nibbles MidiEvent_default_def
          del: word_no_log_defs)
qed

text \<open>
  C9. For every event and every content of the caller's buffer, the encoder returns the
  port field of the event as the port, and the first byte it leaves in the buffer is the
  byte the switch left there (the base of a representable variant, else the byte the
  buffer held) or'ed with the channel. An event of type None is no exception: the length
  is 0, and still the first byte of the buffer is or'ed with the channel and the port is
  set.
\<close>

theorem encode_port_and_channel_always:
  "enc_port (midi_event_to_jack ev (b0, b1, b2)) = port ev \<and>
   enc_status (midi_event_to_jack ev (b0, b1, b2)) =
     (if representable (ev_type ev) then spec_base_status (ev_type ev) else b0)
       OR to_uchar (channel ev) \<and>
   midi_event_to_jack (ev\<lparr>ev_type := MIDI_EVENT_NONE\<rparr>) (b0, b1, b2) =
     ((b0 OR to_uchar (channel ev), b1, b2), 0, port ev)"
proof (intro conjI)
  show "enc_port (midi_event_to_jack ev (b0, b1, b2)) = port ev"
    by (rule enc_port_eq)
  show "enc_status (midi_event_to_jack ev (b0, b1, b2)) =
     (if representable (ev_type ev) then spec_base_status (ev_type ev) else b0)
       OR to_uchar (channel ev)"
    by (rule enc_status_eq)
  show "midi_event_to_jack (ev\<lparr>ev_type := MIDI_EVENT_NONE\<rparr>) (b0, b1, b2) =
     ((b0 OR to_uchar (channel ev), b1, b2), 0, port ev)"
    by (simp add: midi_event_to_jack_def to_uchar_or)
qed

theorem encode_port_and_channel_always_witness:
  "midi_event_to_jack none_ev (0x10, 7, 8) = ((0x12, 7, 8), 0, 99)"
  using encode_port_and_channel_always [of none_ev "0x10" 7 8]
  by (simp add: none_ev_def midi_event_to_jack_def to_uchar_def)

section \<open>Events that are not emitted\<close>

lemma emit_unrepresentable:
  "\<not> representable (ev_type ev) \<Longrightarrow> emit stack ports ev bufs = Inr bufs"
  using enc_len_iff [of ev stack]
  by (cases "midi_event_to_jack ev stack") (auto simp add: emit_def enc_len_def)

text \<open>
  The output loop gives the same result, port buffers and queue, on a queue from which
  the events of no representable type are taken out beforehand.
\<close>

lemma drain_out_filter:
  "drain_out stack ports (without_unrepresentable rb) bufs = drain_out stack ports rb bufs"
proof (induction "rb_items rb" arbitrary: rb bufs)
  case Nil
  then have "without_unrepresentable rb = rb" by (simp add: without_unrepresentable_def)
  then show ?case by simp
next
  case (Cons x xs)
  let ?rb' = "rb\<lparr>rb_items := xs\<rparr>"
  have xs: "xs = rb_items ?rb'" by simp
  have rd: "rb_read rb MidiEvent_default = (True, x, ?rb')" "rb_read_space rb \<noteq> 0"
    using Cons(2) [symmetric] by (simp_all add: rb_read_def rb_read_space_def)
  have right: "drain_out stack ports rb bufs =
      (case emit stack ports x bufs of
         Inl e \<Rightarrow> Inl e
       | Inr bufs' \<Rightarrow> drain_out stack ports ?rb' bufs')"
    by (subst drain_out.simps) (simp add: rd)
  show ?case
  proof (cases "representable (ev_type x)")
    case True
    let ?f = "without_unrepresentable rb"
    have it: "rb_items ?f = x # rb_items (without_unrepresentable ?rb')"
      using True Cons(2) [symmetric] by (simp add: without_unrepresentable_def)
    have rd': "rb_read ?f MidiEvent_default = (True, x, without_unrepresentable ?rb')"
      "rb_read_space ?f \<noteq> 0"
      using it by (simp_all add: rb_read_def rb_read_space_def without_unrepresentable_def)
    have "drain_out stack ports ?f bufs =
      (case emit stack ports x bufs of
         Inl e \<Rightarrow> Inl e
       | Inr bufs' \<Rightarrow> drain_out stack ports (without_unrepresentable ?rb') bufs')"
      by (subst drain_out.simps) (simp add: rd')
    then show ?thesis using Cons(1) [OF xs] right by (simp split: sum.splits)
  next
    case False
    have "without_unrepresentable rb = without_unrepresentable ?rb'"
      using False Cons(2) [symmetric] by (simp add: without_unrepresentable_def)
    then show ?thesis using Cons(1) [OF xs] right emit_unrepresentable [OF False] by simp
  qed
qed

lemma process_filter:
  "process stack ins outs (s\<lparr>out_rb := without_unrepresentable (out_rb s)\<rparr>) =
     process stack ins outs s"
  by (simp add: process_def drain_out_filter)

text \<open>
  C5. A message whose status byte has a high nibble other than 0x90, 0x80, 0xB0, 0xE0 and
  0xC0 is decoded, without failing, to an event of type None. For an event of type None,
  or of any other type that is not representable, the encoder returns the length 0 and the
  body of the output loop leaves every port buffer as it is, whatever the port field of
  the event says; so the whole callback does the same to the bridge and to the port
  buffers as it does when these events are not in the outbound queue at all.
\<close>

theorem unrecognised_status_and_none_events:
  "(uint d0 AND 0xf0 \<notin> {0x90, 0x80, 0xb0, 0xe0, 0xc0} \<longrightarrow>
      map_sum id ev_type (jack_to_midi_event (d0 # rest) p) = Inr MIDI_EVENT_NONE) \<and>
   (\<not> representable (ev_type ev) \<longrightarrow>
      enc_len (midi_event_to_jack ev stack) = 0 \<and> emit stack ports ev bufs = Inr bufs) \<and>
   process stack ins outs (s\<lparr>out_rb := without_unrepresentable (out_rb s)\<rparr>) =
     process stack ins outs s"
proof (intro conjI impI)
  assume "uint d0 AND 0xf0 \<notin> {0x90, 0x80, 0xb0, 0xe0, 0xc0}"
  from decode_other_status [OF this]
  show "map_sum id ev_type (jack_to_midi_event (d0 # rest) p) = Inr MIDI_EVENT_NONE"
    by (simp add: MidiEvent_default_def)
next
  assume "\<not> representable (ev_type ev)"
  then show "enc_len (midi_event_to_jack ev stack) = 0"
    using enc_len_iff [of ev stack] by simp
next
  assume "\<not> representable (ev_type ev)"
  then show "emit stack ports ev bufs = Inr bufs" by (rule emit_unrepresentable)
next
  show "process stack ins outs (s\<lparr>out_rb := without_unrepresentable (out_rb s)\<rparr>) =
     process stack ins outs s" by (rule process_filter)
qed

theorem unrecognised_status_and_none_events_witness:
  "map_sum id ev_type (jack_to_midi_event [0xa0, 60, 100] 0) = Inr MIDI_EVENT_NONE \<and>
   enc_len (midi_event_to_jack none_ev (0, 0, 0)) = 0 \<and>
   emit (0, 0, 0) [3] none_ev no_output = Inr no_output \<and>
   process (0, 0, 0) no_input no_output bridge_ex =
     Inr (bridge_ex\<lparr>out_rb := \<lparr>rb_capacity = 4, rb_items = []\<rparr>\<rparr>,
          no_output(3 := [(0, [0x91, 60, 100])]))"
  using unrecognised_status_and_none_events
    [of "0xa0" "[60, 100]" 0 none_ev "(0, 0, 0)" "[3]" no_output no_input no_output bridge_ex]
  by (simp add: representable_def none_ev_def process_def bridge_ex_def bind_err_def
      drain_out.simps rb_read_space_def rb_read_def emit_def midi_event_to_jack_def
      note_a_def to_uchar_def without_unrepresentable_def jack_midi_event_write_def
      jack_midi_clear_buffer_def wire_message_def no_input_def no_output_def rb_new_def)

section \<open>Construction\<close>

lemma register_ports_None:
  "register_ports srv c f names = None \<longleftrightarrow> registration_fails srv c f names"
  by (induction names) (auto simp add: registration_fails_def split: option.splits)

lemma register_ports_Some:
  "\<not> registration_fails srv c f names \<Longrightarrow>
   register_ports srv c f names = Some (map (\<lambda>n. the (jack_port_register srv c n f)) names)"
  by (induction names) (auto simp add: registration_fails_def split: option.splits)

lemma BackendJack_ctor_cases:
  assumes "client_name \<noteq> []" and "in_portnames \<noteq> []" and "out_portnames \<noteq> []"
  shows "BackendJack_ctor srv cap client_name in_portnames out_portnames =
     (case jack_client_open srv client_name of
        None \<Rightarrow> Thrown (BackendError ''can't connect to jack server'')
      | Some c \<Rightarrow>
          if registration_fails srv c JackPortIsInput in_portnames
          then Thrown (BackendError ''error creating input port'')
          else if registration_fails srv c JackPortIsOutput out_portnames
          then Thrown (BackendError ''error creating output port'')
          else if jack_activate srv c \<noteq> 0
          then Thrown (BackendError ''can't activate client'')
          else Constructed
            \<lparr>client = c,
             in_ports = map (\<lambda>n. the (jack_port_register srv c n JackPortIsInput)) in_portnames,
             out_ports =
               map (\<lambda>n. the (jack_port_register srv c n JackPortIsOutput)) out_portnames,
             in_rb = rb_new cap, out_rb = rb_new cap, notified = 0\<rparr>)"
proof (cases "jack_client_open srv client_name")
  case None
  then show ?thesis using assms by (simp add: BackendJack_ctor_def)
next
  case (Some c)
  show ?thesis
  proof (cases "registration_fails srv c JackPortIsInput in_portnames")
    case True
    then show ?thesis using assms Some
      by (simp add: BackendJack_ctor_def register_ports_None [THEN iffD2])
  next
    case inok: False
    show ?thesis
    proof (cases "registration_fails srv c JackPortIsOutput out_portnames")
      case True
      then show ?thesis using assms Some inok
        by (simp add: BackendJack_ctor_def register_ports_None [THEN iffD2]
            register_ports_Some [OF inok])
    next
      case False
      then show ?thesis using assms Some inok
        by (simp add: BackendJack_ctor_def register_ports_Some)
    qed
  qed
qed

text \<open>
  C6, as the source has it. Given the non-empty client name and port name lists the
  constructor asserts, construction throws a \<open>BackendError\<close> exactly when the client
  cannot be opened, or a registration of an input or output port returns a null handle,
  or activation fails. The message is ``can't connect to jack server'' when the client
  cannot be opened, ``error creating input port'' when an input port is refused,
  ``error creating output port'' when the input ports are registered and an output port
  is refused, and ``can't activate client'' when activation fails after that; otherwise
  the bridge is constructed with the handles registered and two empty queues.
\<close>

theorem constructor_errors:
  assumes "client_name \<noteq> []" and "in_portnames \<noteq> []" and "out_portnames \<noteq> []"
  shows "throws_BackendError (BackendJack_ctor srv cap client_name in_portnames out_portnames) =
     (case jack_client_open srv client_name of
        None \<Rightarrow> True
      | Some c \<Rightarrow>
          registration_fails srv c JackPortIsInput in_portnames \<or>
          registration_fails srv c JackPortIsOutput out_portnames \<or>
          jack_activate srv c \<noteq> 0) \<and>
   BackendJack_ctor srv cap client_name in_portnames out_portnames =
     (case jack_client_open srv client_name of
        None \<Rightarrow> Thrown (BackendError ''can't connect to jack server'')
      | Some c \<Rightarrow>
          if registration_fails srv c JackPortIsInput in_portnames
          then Thrown (BackendError ''error creating input port'')
          else if registration_fails srv c JackPortIsOutput out_portnames
          then Thrown (BackendError ''error creating output port'')
          else if jack_activate srv c \<noteq> 0
          then Thrown (BackendError ''can't activate client'')
          else Constructed
            \<lparr>client = c,
             in_ports = map (\<lambda>n. the (jack_port_register srv c n JackPortIsInput)) in_portnames,
             out_ports =
               map (\<lambda>n. the (jack_port_register srv c n JackPortIsOutput)) out_portnames,
             in_rb = rb_new cap, out_rb = rb_new cap, notified = 0\<rparr>)"
proof (rule conjI)
  show "throws_BackendError (BackendJack_ctor srv cap client_name in_portnames out_portnames) =
     (case jack_client_open srv client_name of
        None \<Rightarrow> True
      | Some c \<Rightarrow>
          registration_fails srv c JackPortIsInput in_portnames \<or>
          registration_fails srv c JackPortIsOutput out_portnames \<or>
          jack_activate srv c \<noteq> 0)"
    unfolding BackendJack_ctor_cases [OF assms]
    by (simp add: throws_BackendError_def split: option.splits)
  show "BackendJack_ctor srv cap client_name in_portnames out_portnames =
     (case jack_client_open srv client_name of
        None \<Rightarrow> Thrown (BackendError ''can't connect to jack server'')
      | Some c \<Rightarrow>
          if registration_fails srv c JackPortIsInput in_portnames
          then Thrown (BackendError ''error creating input port'')
          else if registration_fails srv c JackPortIsOutput out_portnames
          then Thrown (BackendError ''error creating output port'')
          else if jack_activate srv c \<noteq> 0
          then Thrown (BackendError ''can't activate client'')
          else Constructed
            \<lparr>client = c,
             in_ports = map (\<lambda>n. the (jack_port_register srv c n JackPortIsInput)) in_portnames,
             out_ports =
               map (\<lambda>n. the (jack_port_register srv c n JackPortIsOutput)) out_portnames,
             in_rb = rb_new cap, out_rb = rb_new cap, notified = 0\<rparr>)"
    by (rule BackendJack_ctor_cases [OF assms])
qed

theorem constructor_errors_witness:
  "BackendJack_ctor server_up 16 ''mididings'' [''in''] [''out'', ''bad''] =
     Thrown (BackendError ''error creating output port'') \<and>
   throws_BackendError (BackendJack_ctor server_up 16 ''mididings'' [''in''] [''out'', ''bad'']) \<and>
   BackendJack_ctor server_up 16 ''mididings'' [''in''] [''out''] =
     Constructed \<lparr>client = 1, in_ports = [2], out_ports = [3],
        in_rb = rb_new 16, out_rb = rb_new 16, notified = 0\<rparr>"
  using constructor_errors [of "''mididings''" "[''in'']" "[''out'', ''bad'']" server_up 16]
    constructor_errors [of "''mididings''" "[''in'']" "[''out'']" server_up 16]
  by (simp add: server_up_def registration_fails_def throws_BackendError_def)

text \<open>
  When the client cannot be opened the message names the jack server, not a device
  server.
\<close>

theorem constructor_message_counterexample:
  "BackendJack_ctor server_down 16 ''mididings'' [''in''] [''out''] =
     Thrown (BackendError ''can't connect to jack server'') \<and>
   BackendJack_ctor server_down 16 ''mididings'' [''in''] [''out''] \<noteq>
     Thrown (BackendError ''can't connect to device server'')"
  by (simp add: BackendJack_ctor_def server_down_def)

section \<open>The operations of the application thread\<close>

lemma arrived_0: "arrived 0 ws rb = rb"
  by (simp add: arrived_def)

lemma arrived_Nil: "arrived n [] rb = rb"
  by (simp add: arrived_def)

lemma arrived_Suc: "arrived (Suc n) (w # ws) rb = arrived n ws (fold rb_write w rb)"
  by (simp add: arrived_def)

lemma read_nonempty:
  "rb_read_space rb \<noteq> 0 \<Longrightarrow> rb_read rb ev = (ok, ev', rb') \<Longrightarrow> returned_from rb ev ev' rb'"
  by (auto simp add: returned_from_def rb_read_def rb_read_space_def split: list.splits)

text \<open>
  C7. \<open>input_event\<close> does not return as long as the inbound queue is empty at every
  wake-up: if it never returns, the queue was empty each time the thread looked. When it
  returns, the queue was empty at every earlier look and not empty at the last one, and
  the call has taken exactly one event off that queue, the oldest, and returned it.
\<close>

theorem input_event_blocks_until_data:
  "(case input_event ws rb ev of
      None \<Rightarrow> \<forall>n \<le> length ws. rb_read_space (arrived n ws rb) = 0
    | Some (ev', rb') \<Rightarrow>
        \<exists>n \<le> length ws. (\<forall>m < n. rb_read_space (arrived m ws rb) = 0) \<and>
          returned_from (arrived n ws rb) ev ev' rb')"
proof (induction ws arbitrary: rb)
  case Nil
  show ?case
  proof (cases "rb_read_space rb = 0")
    case True
    then show ?thesis by (simp add: arrived_Nil)
  next
    case False
    obtain ok ev' rb' where rd: "rb_read rb ev = (ok, ev', rb')"
      by (cases "rb_read rb ev") auto
    from read_nonempty [OF False rd] False rd show ?thesis by (simp add: arrived_Nil)
  qed
next
  case (Cons w ws)
  show ?case
  proof (cases "rb_read_space rb = 0")
    case False
    obtain ok ev' rb' where rd: "rb_read rb ev = (ok, ev', rb')"
      by (cases "rb_read rb ev") auto
    from read_nonempty [OF False rd]
    have "returned_from (arrived 0 (w # ws) rb) ev ev' rb'"
      by (simp add: arrived_0)
    then have "\<exists>n \<le> length (w # ws).
          (\<forall>m < n. rb_read_space (arrived m (w # ws) rb) = 0) \<and>
          returned_from (arrived n (w # ws) rb) ev ev' rb'"
      by (intro exI [of _ 0]) simp
    then show ?thesis using False rd by simp
  next
    case True
    let ?q = "fold rb_write w rb"
    have step: "input_event (w # ws) rb ev = input_event ws ?q ev" using True by simp
    show ?thesis
    proof (cases "input_event ws ?q ev")
      case None
      with Cons [of ?q] have all: "\<forall>n \<le> length ws. rb_read_space (arrived n ws ?q) = 0"
        by simp
      have "\<forall>n \<le> length (w # ws). rb_read_space (arrived n (w # ws) rb) = 0"
      proof (intro allI impI)
        fix n assume "n \<le> length (w # ws)"
        then show "rb_read_space (arrived n (w # ws) rb) = 0"
          using all True by (cases n) (simp_all add: arrived_0 arrived_Suc)
      qed
      then show ?thesis using None step by simp
    next
      case (Some r)
      obtain ev' rb' where r: "r = (ev', rb')" by (cases r) auto
      with Some Cons [of ?q] obtain n where n: "n \<le> length ws"
        "\<forall>m < n. rb_read_space (arrived m ws ?q) = 0"
        "returned_from (arrived n ws ?q) ev ev' rb'" by auto
      have "\<forall>m < Suc n. rb_read_space (arrived m (w # ws) rb) = 0"
      proof (intro allI impI)
        fix m assume "m < Suc n"
        then show "rb_read_space (arrived m (w # ws) rb) = 0"
          using n(2) True by (cases m) (simp_all add: arrived_0 arrived_Suc)
      qed
      moreover have "returned_from (arrived (Suc n) (w # ws) rb) ev ev' rb'"
        using n(3) by (simp add: arrived_Suc)
      moreover have "Suc n \<le> length (w # ws)" using n(1) by simp
      ultimately have "\<exists>k \<le> length (w # ws).
          (\<forall>m < k. rb_read_space (arrived m (w # ws) rb) = 0) \<and>
          returned_from (arrived k (w # ws) rb) ev ev' rb'" by blast
      then show ?thesis using Some r step by simp
    qed
  qed
qed

theorem input_event_blocks_until_data_witness:
  "input_event [[], [note_a, note_b]] (rb_new 4) MidiEvent_default =
     Some (note_a, \<lparr>rb_capacity = 4, rb_items = [note_b]\<rparr>) \<and>
   input_event [[], []] (rb_new 4) MidiEvent_default = None \<and>
   rb_read_space (arrived 1 [[], [note_a, note_b]] (rb_new 4)) = 0 \<and>
   returned_from (arrived 2 [[], [note_a, note_b]] (rb_new 4)) MidiEvent_default note_a
     \<lparr>rb_capacity = 4, rb_items = [note_b]\<rparr>"
  using input_event_blocks_until_data [of "[[], [note_a, note_b]]" "rb_new 4" MidiEvent_default]
  by (simp add: rb_new_def rb_read_space_def rb_write_def rb_read_def arrived_def
      returned_from_def)

text \<open>
  C8. \<open>flush_output\<close> does nothing: for every state of the bridge, the state after the
  call is the state before it, both queues, the port arrays, the client handle and the
  wake signal included.
\<close>

theorem flush_output_noop:
  "flush_output s = s"
  by (simp add: flush_output_def)

text \<open>
  C10. \<open>drop_input\<close> changes the inbound queue only: for every state of the bridge the
  outbound queue, the port arrays, the client handle and the wake signal are what they
  were, and putting the old inbound queue back gives the old state; the inbound queue is
  reset, so it holds no unread event and keeps its capacity.
\<close>

theorem drop_input_frame:
  "out_rb (drop_input s) = out_rb s \<and> in_ports (drop_input s) = in_ports s \<and>
   out_ports (drop_input s) = out_ports s \<and> client (drop_input s) = client s \<and>
   notified (drop_input s) = notified s \<and>
   (drop_input s)\<lparr>in_rb := in_rb s\<rparr> = s \<and>
   in_rb (drop_input s) = rb_reset (in_rb s) \<and>
   rb_read_space (in_rb (drop_input s)) = 0 \<and>
   rb_capacity (in_rb (drop_input s)) = rb_capacity (in_rb s)"
  by (simp add: drop_input_def rb_reset_def rb_read_space_def)

end
